theory Spec2Isabelle
  imports Main "HOL-Library.Sublist"
begin

section \<open>Configuration (CONFIG)\<close>

definition CHAPTERS_DIRECTORY :: string where
  "CHAPTERS_DIRECTORY = ''chapters''"

definition CHAPTERS_TO_LOAD :: "string list" where
  "CHAPTERS_TO_LOAD = [''kinematics.html'', ''dynamics.html'']"

definition CACHE_DURATION :: int where
  "CACHE_DURATION = 600000"

section \<open>Strings\<close>

text \<open>
  Strings are modelled over ASCII: a \<open>char\<close> is one character. toLowerCase maps the
  letters A-Z and leaves every other character; trim strips the ASCII white space
  (tab, line feed, vertical tab, form feed, carriage return, space) at both ends;
  \<open>str_includes t q\<close> is \<open>t.includes(q)\<close>.
\<close>

definition lowerChar :: "char \<Rightarrow> char" where
  "lowerChar c =
     (case map_of (zip ''ABCDEFGHIJKLMNOPQRSTUVWXYZ'' ''abcdefghijklmnopqrstuvwxyz'') c of
        Some d \<Rightarrow> d
      | None \<Rightarrow> c)"

definition toLowerCase :: "string \<Rightarrow> string" where
  "toLowerCase s = map lowerChar s"

definition isWhiteSpace :: "char \<Rightarrow> bool" where
  "isWhiteSpace c = (c \<in> set [CHR 0x09, CHR 0x0A, CHR 0x0B, CHR 0x0C, CHR 0x0D, CHR '' ''])"

definition trim :: "string \<Rightarrow> string" where
  "trim s = rev (dropWhile isWhiteSpace (rev (dropWhile isWhiteSpace s)))"

fun str_includes :: "string \<Rightarrow> string \<Rightarrow> bool" where
  "str_includes [] q = (q = [])"
| "str_includes (c # cs) q = (prefix q (c # cs) \<or> str_includes cs q)"

text \<open>
  A string value used as a condition: null, undefined (\<open>None\<close>) and the empty string
  are falsy.
\<close>

definition truthy :: "string option \<Rightarrow> string option" where
  "truthy v = (case v of None \<Rightarrow> None | Some s \<Rightarrow> if s = [] then None else Some s)"

section \<open>The document tree\<close>

text \<open>
  The tree holds what the fragments' HTML fixes: tags, the class attribute, the other
  attributes (\<open>data-plot-id\<close> among them) and the text. An element object is a pair of
  its path (the child indices from the root, which is its identity) and its node.
  What the scripts change on an element later (the classes \<open>hidden\<close>, \<open>active\<close> and
  \<open>has-subsections\<close>, style properties, innerHTML, dataset.originalContent) is kept
  in stores keyed by the element's path.
\<close>

type_synonym path = "nat list"

datatype node =
    Text string
  | Element (tag: string) (classes: "string list") (attrs: "(string \<times> string) list")
      (kids: "node list")

type_synonym element = "path \<times> node"

fun isElement :: "node \<Rightarrow> bool" where
  "isElement (Text s) = False"
| "isElement (Element t cs as ks) = True"

text \<open>The proper descendants of a node that are elements, in document order.\<close>

fun descendants :: "path \<Rightarrow> node \<Rightarrow> element list"
and descendantsList :: "path \<Rightarrow> nat \<Rightarrow> node list \<Rightarrow> element list" where
  "descendants p (Text s) = []"
| "descendants p (Element t cs as ks) = descendantsList p 0 ks"
| "descendantsList p i [] = []"
| "descendantsList p i (k # ks) =
     (if isElement k then [(p @ [i], k)] else []) @ descendants (p @ [i]) k
       @ descendantsList p (Suc i) ks"

text \<open>
  The selectors the scripts use: \<open>.c\<close>, a tag name, and \<open>.c[a]\<close> (class \<open>c\<close> with
  attribute \<open>a\<close> present).
\<close>

datatype selector = Class string | Tag string | ClassWithAttr string string

fun matchesSel :: "selector \<Rightarrow> node \<Rightarrow> bool" where
  "matchesSel sel (Text s) = False"
| "matchesSel (Class c) (Element t cs as ks) = (c \<in> set cs)"
| "matchesSel (Tag n) (Element t cs as ks) = (t = n)"
| "matchesSel (ClassWithAttr c a) (Element t cs as ks) = (c \<in> set cs \<and> map_of as a \<noteq> None)"

definition querySelectorAll :: "selector \<Rightarrow> element \<Rightarrow> element list" where
  "querySelectorAll sel el = filter (\<lambda>d. matchesSel sel (snd d)) (descendants (fst el) (snd el))"

definition querySelector :: "selector \<Rightarrow> element \<Rightarrow> element option" where
  "querySelector sel el = (case querySelectorAll sel el of [] \<Rightarrow> None | d # ds \<Rightarrow> Some d)"

fun textContent :: "node \<Rightarrow> string" where
  "textContent (Text s) = s"
| "textContent (Element t cs as ks) = concat (map textContent ks)"

text \<open>\<open>el.querySelector(sel)?.textContent || ''\<close>\<close>

definition textOfFirst :: "selector \<Rightarrow> element \<Rightarrow> string" where
  "textOfFirst sel el = (case querySelector sel el of None \<Rightarrow> [] | Some d \<Rightarrow> textContent (snd d))"

text \<open>\<open>element.dataset.plotId\<close>: the value of the attribute \<open>data-plot-id\<close>.\<close>

definition plotIdOf :: "element \<Rightarrow> string option" where
  "plotIdOf el = (case snd el of Text s \<Rightarrow> None | Element t cs as ks \<Rightarrow> map_of as ''data-plot-id'')"

section \<open>Global state (STATE) and the page\<close>

text \<open>
  A chart instance and an animation controller are objects; the model names each by a
  handle. Date.now() is a whole number of milliseconds, an \<open>int\<close> here.
\<close>

type_synonym chart = nat
type_synonym anim = nat

record cache_entry =
  content :: string
  timestamp :: int

record index_entry =
  element :: path
  chapterOf :: path
  chapterTitle :: string
  textOf :: string
  title :: string

record STATE =
  loadedChapters :: "string set"
  activeCharts :: "string \<rightharpoonup> chart"
  activeAnimations :: "string \<rightharpoonup> anim"
  observedElements :: "path set"
  chapterCache :: "string \<rightharpoonup> cache_entry"
  searchIndex :: "index_entry list option"
  isLoading :: bool

text \<open>
  What the scripts do to the outside, in order: network requests, calls of a plot
  initializer on an element, \<open>destroy()\<close> of a chart, \<open>stop()\<close> of an animation.
\<close>

datatype effect = Fetch string | InitPlot string path | ChartDestroy chart | AnimationStop anim

datatype css_value = Px nat | Keyword string

text \<open>
  The world is STATE together with the page. The elements found by id may be absent
  (\<open>None\<close>); for those present the field holds the property the scripts write:
  \<open>hidden\<close> for the error container, the clear button and the no-results message,
  the text of the error message, the value of the search input, whether the loading
  overlay carries \<open>fade-out\<close>, and the number of click listeners on the retry button.
  \<open>doc\<close> is the content container's element tree; every injection of HTML makes new
  element objects, so the root path of the tree is the number of the injection
  (\<open>generation\<close>). The page has no chapter, formula item or plot container outside
  the content container, so a query on the document is a query on this tree.
\<close>

record world = STATE +
  effects :: "effect list"
  generation :: nat
  doc :: node
  hasContainer :: bool
  containerHTML :: string
  containerHidden :: bool
  loadingOverlay :: "bool option"
  errorContainer :: "bool option"
  errorMessage :: "string option"
  retryListeners :: "nat option"
  searchInput :: "string option"
  clearButton :: "bool option"
  noResultsMessage :: "bool option"
  hiddenEls :: "path set"
  activeEls :: "path set"
  hasSubsectionsEls :: "path set"
  maxHeight :: "path \<rightharpoonup> css_value"
  overflow :: "path \<rightharpoonup> css_value"
  transform :: "path \<rightharpoonup> string"
  scrollHeight :: "path \<Rightarrow> nat"
  innerHTML :: "path \<Rightarrow> string"
  originalContent :: "path \<rightharpoonup> string"

definition document :: "world \<Rightarrow> element" where
  "document W = ([generation W], doc W)"

section \<open>ChapterManager: the chapter cache\<close>

text \<open>
  getCachedChapters reads the clock once (\<open>now\<close>); it returns the cached content, or
  null (\<open>None\<close>) after deleting an entry older than CACHE_DURATION.
\<close>

definition getCachedChapters :: "int \<Rightarrow> world \<Rightarrow> string option \<times> world" where
  "getCachedChapters now W =
     (case chapterCache W ''chapters'' of
        None \<Rightarrow> (None, W)
      | Some cached \<Rightarrow>
          if now - timestamp cached > CACHE_DURATION
          then (None, W\<lparr>chapterCache := (chapterCache W)(''chapters'' := None)\<rparr>)
          else (Some (content cached), W))"

definition cacheChapters :: "int \<Rightarrow> string \<Rightarrow> world \<Rightarrow> world" where
  "cacheChapters now c W =
     W\<lparr>chapterCache := (chapterCache W)(''chapters'' \<mapsto> \<lparr>content = c, timestamp = now\<rparr>)\<rparr>"

section \<open>ChapterManager: the search index\<close>

text \<open>
  buildSearchIndex walks the chapters of the document in document order and, inside
  each, its formula items in document order, and stores the list in STATE.searchIndex.
\<close>

definition indexEntry :: "element \<Rightarrow> string \<Rightarrow> element \<Rightarrow> index_entry" where
  "indexEntry chapter chTitle item =
     \<lparr>element = fst item, chapterOf = fst chapter, chapterTitle = chTitle,
      textOf = toLowerCase (textContent (snd item)),
      title = textOfFirst (Tag ''h3'') item\<rparr>"

definition chapterEntries :: "element \<Rightarrow> index_entry list" where
  "chapterEntries chapter =
     map (indexEntry chapter (textOfFirst (Tag ''h2'') chapter))
       (querySelectorAll (Class ''formula-item'') chapter)"

definition searchIndexOf :: "element \<Rightarrow> index_entry list" where
  "searchIndexOf d = concat (map chapterEntries (querySelectorAll (Class ''chapter'') d))"

definition buildSearchIndex :: "world \<Rightarrow> world" where
  "buildSearchIndex W = W\<lparr>searchIndex := Some (searchIndexOf (document W))\<rparr>"








section \<open>ChapterManager: loading the chapters\<close>

text \<open>
  The environment of one run of loadChapters: what fetch gives for a URL (a rejected
  promise, or a response with its \<open>ok\<close> flag and its text, \<open>None\<close> when reading the
  text fails), the two clock readings (one in getCachedChapters, a later one in
  cacheChapters), the element tree the browser builds for the container from an HTML
  string, and the page's set-up calls of onChaptersLoaded before the index is built
  (copy buttons, plot observation, toggle listeners, chapter navigation): they give
  the tree as they leave it and the exception, if any, that cut them short. The
  counters that onChaptersLoaded writes after building the index are not modelled.
  The fetches of a load are started in the order of the list; the model also takes
  their results in that order, which gives the same set of loaded chapters.
\<close>

datatype error = Error (message: string)

datatype fetch_outcome = NetworkError | Response (ok: bool) (body: "string option")

record env =
  fetch :: "string \<Rightarrow> fetch_outcome"
  nowLookup :: int
  nowStore :: int
  domOf :: "string \<Rightarrow> node"
  glue :: "node \<Rightarrow> error option \<times> node"

definition errorPlaceholder :: "string \<Rightarrow> string" where
  \<open>errorPlaceholder file = ''<div class="chapter error">Failed to load '' @ file @ ''</div>''\<close>

definition chapterUrl :: "string \<Rightarrow> string" where
  "chapterUrl file = CHAPTERS_DIRECTORY @ ''/'' @ file"

text \<open>
  One element of fetchPromises: the HTML of the file, recorded in loadedChapters, or
  the error placeholder when the request fails, the response is not ok, or its text
  cannot be read.
\<close>

definition fetchChapter :: "env \<Rightarrow> string \<Rightarrow> world \<Rightarrow> string \<times> world" where
  "fetchChapter E file W =
     (let W1 = W\<lparr>effects := effects W @ [Fetch (chapterUrl file)]\<rparr> in
      case fetch E (chapterUrl file) of
        NetworkError \<Rightarrow> (errorPlaceholder file, W1)
      | Response isOk txt \<Rightarrow>
          if \<not> isOk then (errorPlaceholder file, W1)
          else (case txt of
                  None \<Rightarrow> (errorPlaceholder file, W1)
                | Some html \<Rightarrow> (html, W1\<lparr>loadedChapters := insert file (loadedChapters W1)\<rparr>)))"

text \<open>\<open>Promise.all(CHAPTERS_TO_LOAD.map(...))\<close>: the results in the order of the list.\<close>

fun fetchChapters :: "env \<Rightarrow> string list \<Rightarrow> world \<Rightarrow> string list \<times> world" where
  "fetchChapters E [] W = ([], W)"
| "fetchChapters E (file # files) W =
     (case fetchChapter E file W of
        (html, W1) \<Rightarrow> (case fetchChapters E files W1 of (htmls, W2) \<Rightarrow> (html # htmls, W2)))"

text \<open>\<open>container.innerHTML = html\<close>: the browser replaces the container's tree.\<close>

definition setContainerHTML :: "env \<Rightarrow> string \<Rightarrow> world \<Rightarrow> world" where
  "setContainerHTML E html W =
     W\<lparr>containerHTML := html, generation := Suc (generation W), doc := domOf E html\<rparr>"

definition onChaptersLoaded :: "env \<Rightarrow> world \<Rightarrow> error option \<times> world" where
  "onChaptersLoaded E W =
     (case glue E (doc W) of
        (Some e, d) \<Rightarrow> (Some e, W\<lparr>doc := d\<rparr>)
      | (None, d) \<Rightarrow> (None, buildSearchIndex (W\<lparr>doc := d\<rparr>)))"

definition fadeOutOverlay :: "world \<Rightarrow> world" where
  "fadeOutOverlay W = W\<lparr>loadingOverlay := map_option (\<lambda>b. True) (loadingOverlay W)\<rparr>"

definition showError :: "error \<Rightarrow> world \<Rightarrow> world" where
  "showError e W =
     (let W1 = (if hasContainer W then W\<lparr>containerHidden := True\<rparr> else W) in
      case errorContainer W1 of
        None \<Rightarrow> W1
      | Some h \<Rightarrow>
          W1\<lparr>errorContainer := Some False,
             errorMessage := map_option (\<lambda>t. message e) (errorMessage W1),
             retryListeners := map_option Suc (retryListeners W1)\<rparr>)"

text \<open>The body of the try block: the exception that leaves it, if any, and the world.\<close>

definition loadChaptersTry :: "env \<Rightarrow> world \<Rightarrow> error option \<times> world" where
  "loadChaptersTry E W =
     (let W1 = W\<lparr>isLoading := True\<rparr> in
      case getCachedChapters (nowLookup E) W1 of
        (cached, W2) \<Rightarrow>
          (case truthy cached of
             Some html \<Rightarrow>
               (case onChaptersLoaded E (setContainerHTML E html W2) of
                  (Some e, W3) \<Rightarrow> (Some e, W3)
                | (None, W3) \<Rightarrow> (None, fadeOutOverlay W3))
           | None \<Rightarrow>
               (case fetchChapters E CHAPTERS_TO_LOAD W2 of
                  (chapterHtmls, W3) \<Rightarrow>
                    (let c = concat chapterHtmls;
                         W4 = cacheChapters (nowStore E) c (setContainerHTML E c W3)
                     in case onChaptersLoaded E W4 of
                          (Some e, W5) \<Rightarrow> (Some e, W5)
                        | (None, W5) \<Rightarrow> (None, fadeOutOverlay W5)))))"

definition loadChapters :: "env \<Rightarrow> world \<Rightarrow> world" where
  "loadChapters E W =
     (if \<not> hasContainer W then W
      else case loadChaptersTry E W of
             (Some e, W1) \<Rightarrow> (showError e W1)\<lparr>isLoading := False\<rparr>
           | (None, W1) \<Rightarrow> W1\<lparr>isLoading := False\<rparr>)"



text \<open>
  For stating what a load does: the HTML of a file whose fetch succeeds (the request
  resolves, the response is ok and its text can be read), the value its promise
  resolves to, and the files of a list that are fetched successfully.
\<close>

definition fetchedHtml :: "env \<Rightarrow> string \<Rightarrow> string option" where
  "fetchedHtml E file =
     (case fetch E (chapterUrl file) of
        NetworkError \<Rightarrow> None
      | Response isOk txt \<Rightarrow> if isOk then txt else None)"

definition fileResult :: "env \<Rightarrow> string \<Rightarrow> string" where
  "fileResult E file =
     (case fetchedHtml E file of None \<Rightarrow> errorPlaceholder file | Some html \<Rightarrow> html)"

definition fetchedFiles :: "env \<Rightarrow> string list \<Rightarrow> string set" where
  "fetchedFiles E files = set (filter (\<lambda>f. fetchedHtml E f \<noteq> None) files)"

section \<open>LazyLoader\<close>






section \<open>ChapterManager: expanding and collapsing\<close>

definition cleanupPlot :: "element \<Rightarrow> world \<Rightarrow> world" where
  "cleanupPlot plot W =
     (let W1 = (case plotIdOf plot of
                  None \<Rightarrow> W
                | Some plotId \<Rightarrow>
                    (let Wa = (case activeCharts W plotId of
                                 None \<Rightarrow> W
                               | Some ch \<Rightarrow>
                                   W\<lparr>activeCharts := (activeCharts W)(plotId := None),
                                      effects := effects W @ [ChartDestroy ch]\<rparr>)
                     in case activeAnimations Wa plotId of
                          None \<Rightarrow> Wa
                        | Some an \<Rightarrow>
                            Wa\<lparr>activeAnimations := (activeAnimations Wa)(plotId := None),
                               effects := effects Wa @ [AnimationStop an]\<rparr>))
      in W1\<lparr>observedElements := observedElements W1 - {fst plot}\<rparr>)"

definition plotsIn :: "element \<Rightarrow> element list" where
  "plotsIn el = querySelectorAll (ClassWithAttr ''interactive-plot'' ''data-plot-id'') el"

definition cleanupChapterResources :: "element \<Rightarrow> world \<Rightarrow> world" where
  "cleanupChapterResources chapter W = fold cleanupPlot (plotsIn chapter) W"



definition toggleChapter :: "element \<Rightarrow> bool option \<Rightarrow> world \<Rightarrow> world" where
  "toggleChapter chapter forceState W =
     (case querySelector (Class ''chapter-content'') chapter of
        None \<Rightarrow> W
      | Some c \<Rightarrow>
          (let isActive = (case forceState of Some b \<Rightarrow> b
                           | None \<Rightarrow> fst chapter \<notin> activeEls W);
               hasSubsections = (querySelectorAll (Class ''subsection'') chapter \<noteq> []);
               W1 = W\<lparr>hasSubsectionsEls :=
                        (if hasSubsections then insert (fst chapter) (hasSubsectionsEls W)
                         else hasSubsectionsEls W - {fst chapter})\<rparr>
           in if isActive
              then (if hasSubsections
                    then W1\<lparr>activeEls := insert (fst chapter) (activeEls W1),
                            maxHeight := (maxHeight W1)(fst c \<mapsto> Keyword ''none''),
                            overflow := (overflow W1)(fst c \<mapsto> Keyword ''visible'')\<rparr>
                    else W1\<lparr>activeEls := insert (fst chapter) (activeEls W1),
                            maxHeight := (maxHeight W1)(fst c \<mapsto> Px (scrollHeight W1 (fst c)))\<rparr>)
              else cleanupChapterResources chapter
                     (W1\<lparr>activeEls := activeEls W1 - {fst chapter},
                         maxHeight := (maxHeight W1)(fst c := None),
                         overflow := (overflow W1)(fst c := None)\<rparr>)))"


section \<open>SearchManager\<close>

text \<open>
  handleSearch highlights with \<open>new RegExp(`(${query})`, 'gi')\<close> and
  \<open>replace(regex, '<mark class="highlight">$1</mark>')\<close> on the saved HTML source.
  For a query without regular-expression syntax characters the pattern is the literal
  query: \<open>markAll\<close> scans the source from the left and wraps every match, compared
  without regard to letter case, never overlapping. For any other query the result is
  the regular-expression engine's, a parameter of the model: \<open>None\<close> when the RegExp
  constructor throws a SyntaxError.
\<close>

type_synonym regex_engine = "string \<Rightarrow> string \<Rightarrow> string option"

definition regexSyntaxChars :: "char list" where
  "regexSyntaxChars =
     [CHR 0x5C, CHR ''^'', CHR ''$'', CHR ''.'', CHR ''*'', CHR ''+'', CHR ''?'', CHR ''('',
      CHR '')'', CHR ''['', CHR '']'', CHR ''{'', CHR ''}'', CHR ''|'']"

definition markOpen :: string where
  \<open>markOpen = ''<mark class="highlight">''\<close>

definition markClose :: string where
  "markClose = ''</mark>''"

definition ciPrefix :: "string \<Rightarrow> string \<Rightarrow> bool" where
  "ciPrefix q s = (length q \<le> length s \<and> toLowerCase (take (length q) s) = toLowerCase q)"

function markAll :: "string \<Rightarrow> string \<Rightarrow> string" where
  "markAll q [] = []"
| "markAll q (c # cs) =
     (if q \<noteq> [] \<and> ciPrefix q (c # cs)
      then markOpen @ take (length q) (c # cs) @ markClose
             @ markAll q (drop (length q) (c # cs))
      else c # markAll q cs)"
  by pat_completeness auto
termination
  by (relation "measure (\<lambda>(q, s). length s)") auto

declare markAll.simps [simp del]

definition highlightMatches :: "regex_engine \<Rightarrow> string \<Rightarrow> string \<Rightarrow> string option" where
  "highlightMatches engine q html =
     (if q \<noteq> [] \<and> list_all (\<lambda>c. c \<notin> set regexSyntaxChars) q
      then Some (markAll q html)
      else engine q html)"

definition syntaxError :: error where
  "syntaxError = Error ''Invalid regular expression''"

definition toggleHidden :: "path \<Rightarrow> bool \<Rightarrow> world \<Rightarrow> world" where
  "toggleHidden el force W =
     W\<lparr>hiddenEls := (if force then insert el (hiddenEls W) else hiddenEls W - {el})\<rparr>"

text \<open>
  The callback of \<open>STATE.searchIndex.forEach\<close> on one entry: the exception it throws,
  if any, and the world as it leaves it.
\<close>

definition searchEntry :: "regex_engine \<Rightarrow> string \<Rightarrow> index_entry \<Rightarrow> world \<Rightarrow> error option \<times> world" where
  "searchEntry engine query e W =
     (let el = element e;
          matches = str_includes (textOf e) query;
          W1 = toggleHidden el (\<not> matches) W
      in if matches
         then
           (let W2 = (if truthy (originalContent W1 el) = None
                      then W1\<lparr>originalContent := (originalContent W1)(el \<mapsto> innerHTML W1 el)\<rparr>
                      else W1)
            in case highlightMatches engine query
                      (case originalContent W2 el of None \<Rightarrow> [] | Some s \<Rightarrow> s) of
                 None \<Rightarrow> (Some syntaxError, W2)
               | Some h \<Rightarrow> (None, W2\<lparr>innerHTML := (innerHTML W2)(el := h)\<rparr>))
         else
           (case truthy (originalContent W1 el) of
              None \<Rightarrow> (None, W1)
            | Some s \<Rightarrow> (None, W1\<lparr>innerHTML := (innerHTML W1)(el := s)\<rparr>)))"

text \<open>
  The forEach loop with the local variables hasResults and matchedChapters; an
  exception ends it.
\<close>

fun searchIndexLoop ::
  "regex_engine \<Rightarrow> string \<Rightarrow> index_entry list \<Rightarrow> world \<Rightarrow> bool \<Rightarrow> path set
     \<Rightarrow> error option \<times> world \<times> bool \<times> path set" where
  "searchIndexLoop engine query [] W hasResults matchedChapters =
     (None, W, hasResults, matchedChapters)"
| "searchIndexLoop engine query (e # es) W hasResults matchedChapters =
     (let matches = str_includes (textOf e) query;
          hasResults' = (hasResults \<or> matches);
          matchedChapters' = (if matches then insert (chapterOf e) matchedChapters
                              else matchedChapters)
      in case searchEntry engine query e W of
           (Some x, W1) \<Rightarrow> (Some x, W1, hasResults', matchedChapters')
         | (None, W1) \<Rightarrow> searchIndexLoop engine query es W1 hasResults' matchedChapters')"

definition showHideChapter :: "string \<Rightarrow> path set \<Rightarrow> element \<Rightarrow> world \<Rightarrow> world" where
  "showHideChapter query matchedChapters chapter W =
     (let hasMatch = (fst chapter \<in> matchedChapters);
          W1 = toggleHidden (fst chapter) (\<not> hasMatch) W
      in if hasMatch \<and> query \<noteq> [] then toggleChapter chapter (Some True) W1 else W1)"

definition resetItem :: "element \<Rightarrow> world \<Rightarrow> world" where
  "resetItem item W =
     (let W1 = W\<lparr>hiddenEls := hiddenEls W - {fst item}\<rparr> in
      case truthy (originalContent W1 (fst item)) of
        None \<Rightarrow> W1
      | Some s \<Rightarrow>
          W1\<lparr>innerHTML := (innerHTML W1)(fst item := s),
             originalContent := (originalContent W1)(fst item := None)\<rparr>)"

definition unhideChapter :: "element \<Rightarrow> world \<Rightarrow> world" where
  "unhideChapter chapter W = W\<lparr>hiddenEls := hiddenEls W - {fst chapter}\<rparr>"

definition clearSearch :: "world \<Rightarrow> world" where
  "clearSearch W =
     (let W1 = W\<lparr>searchInput := map_option (\<lambda>v. []) (searchInput W),
                 clearButton := map_option (\<lambda>h. True) (clearButton W)\<rparr>;
          W2 = fold resetItem (querySelectorAll (Class ''formula-item'') (document W1)) W1;
          W3 = fold unhideChapter (querySelectorAll (Class ''chapter'') (document W2)) W2
      in W3\<lparr>noResultsMessage := map_option (\<lambda>h. True) (noResultsMessage W3)\<rparr>)"

text \<open>\<open>v\<close> is \<open>event.target.value\<close>, the text in the search box.\<close>

definition handleSearch :: "regex_engine \<Rightarrow> string \<Rightarrow> world \<Rightarrow> error option \<times> world" where
  "handleSearch engine v W =
     (let query = trim (toLowerCase v) in
      if query = [] then (None, clearSearch W)
      else
        case (case searchIndex W of
                None \<Rightarrow> (None, W, False, {})
              | Some idx \<Rightarrow> searchIndexLoop engine query idx W False {}) of
          (Some x, W1, hasResults, matchedChapters) \<Rightarrow> (Some x, W1)
        | (None, W1, hasResults, matchedChapters) \<Rightarrow>
            (let W2 = fold (showHideChapter query matchedChapters)
                        (querySelectorAll (Class ''chapter'') (document W1)) W1
             in (None, W2\<lparr>noResultsMessage :=
                            map_option (\<lambda>h. hasResults \<or> query = []) (noResultsMessage W2)\<rparr>)))"






section \<open>Page events\<close>











section \<open>Example inputs\<close>

text \<open>The world of a freshly opened page whose elements are all present.\<close>

definition world0 :: world where
  "world0 = \<lparr>loadedChapters = {}, activeCharts = Map.empty, activeAnimations = Map.empty,
     observedElements = {}, chapterCache = Map.empty, searchIndex = None,
     isLoading = False,
     effects = [], generation = 0, doc = Element ''div'' [] [] [],
     hasContainer = True, containerHTML = [], containerHidden = False,
     loadingOverlay = Some False, errorContainer = Some True, errorMessage = Some [],
     retryListeners = Some 0, searchInput = Some [], clearButton = Some True,
     noResultsMessage = Some True,
     hiddenEls = {}, activeEls = {}, hasSubsectionsEls = {},
     maxHeight = Map.empty, overflow = Map.empty, transform = Map.empty,
     scrollHeight = (\<lambda>p. 0), innerHTML = (\<lambda>p. []), originalContent = Map.empty\<rparr>"


definition exItemNode :: node where
  "exItemNode = Element ''div'' [''formula-item''] []
     [Element ''h3'' [] [] [Text ''Newton''], Text ''F = ma'']"






definition exItem :: element where
  "exItem = ([0, 0, 1, 0, 0, 0], exItemNode)"






text \<open>
  A page for searching: a chapter with three formula items (one with a subscript, one
  that is a heading, one with parentheses) and a second chapter with one item; the
  index is built and each item's HTML is the markup of its node. \<open>exEngine\<close> is what
  the regular-expression engine does with the pattern \<open>(()\<close>, the only one with syntax
  characters used on this page: the constructor throws.
\<close>

definition exSearchDoc :: node where
  "exSearchDoc = Element ''div'' [] []
     [Element ''section'' [''chapter''] []
        [Element ''h2'' [] [] [Text ''Kinematics''],
         Element ''div'' [''chapter-content''] []
           [Element ''div'' [''formula-item''] []
              [Text ''v'', Element ''sub'' [] [] [Text ''0''], Text '' = 5''],
            Element ''div'' [''formula-item''] [] [Element ''h3'' [] [] [Text ''Height'']],
            Element ''div'' [''formula-item''] [] [Text ''s(t)'']]],
      Element ''section'' [''chapter''] []
        [Element ''h2'' [] [] [Text ''Dynamics''],
         Element ''div'' [''chapter-content''] []
           [Element ''div'' [''formula-item''] [] [Text ''F = ma'']]]]"

definition exSearchHTML :: "path \<Rightarrow> string" where
  "exSearchHTML =
     (\<lambda>p. [])([0, 0, 1, 0] := ''v<sub>0</sub> = 5'',
              [0, 0, 1, 1] := ''<h3>Height</h3>'',
              [0, 0, 1, 2] := ''s(t)'',
              [0, 1, 1, 0] := ''F = ma'')"

definition world3 :: world where
  "world3 = buildSearchIndex (world0\<lparr>doc := exSearchDoc, innerHTML := exSearchHTML\<rparr>)"

definition exEngine :: regex_engine where
  "exEngine q html = (if q = ''('' then None else Some html)"

text \<open>The four entries of the index of \<open>world3\<close>.\<close>

definition e1 :: index_entry where
  "e1 = \<lparr>element = [0, 0, 1, 0], chapterOf = [0, 0], chapterTitle = ''Kinematics'',
             textOf = ''v0 = 5'', title = []\<rparr>"

definition e2 :: index_entry where
  "e2 = \<lparr>element = [0, 0, 1, 1], chapterOf = [0, 0], chapterTitle = ''Kinematics'',
             textOf = ''height'', title = ''Height''\<rparr>"

definition e3 :: index_entry where
  "e3 = \<lparr>element = [0, 0, 1, 2], chapterOf = [0, 0], chapterTitle = ''Kinematics'',
             textOf = ''s(t)'', title = []\<rparr>"

definition e4 :: index_entry where
  "e4 = \<lparr>element = [0, 1, 1, 0], chapterOf = [0, 1], chapterTitle = ''Dynamics'',
             textOf = ''f = ma'', title = []\<rparr>"

text \<open>
  An environment in which the request for kinematics.html fails and dynamics.html is
  served, and one in which, besides, the page set-up throws.
\<close>

definition env1 :: env where
  "env1 = \<lparr>fetch = (\<lambda>url. if url = ''chapters/dynamics.html''
                         then Response True (Some ''<p>F = ma</p>'') else NetworkError),
           nowLookup = 1000, nowStore = 1005,
           domOf = (\<lambda>html. Element ''div'' [] [] []),
           glue = (\<lambda>d. (None, d))\<rparr>"

definition env2 :: env where
  "env2 = env1\<lparr>glue := (\<lambda>d. (Some (Error ''observe failed''), d))\<rparr>"

section \<open>Properties\<close>

subsection \<open>The chapter cache\<close>

text \<open>
  C3. The cache holds the stored string for a fixed window of CACHE_DURATION = 600000 ms:
  a lookup at a time \<open>t1\<close> at most CACHE_DURATION after the store at \<open>t0\<close> returns exactly
  the stored string (and leaves the state as it was); a lookup strictly later returns
  nothing and deletes the entry from the cache.
\<close>

theorem cache_window:
  "CACHE_DURATION = 600000 \<and>
   (t1 - t0 \<le> CACHE_DURATION \<longrightarrow>
      getCachedChapters t1 (cacheChapters t0 c S) = (Some c, cacheChapters t0 c S)) \<and>
   (t1 - t0 > CACHE_DURATION \<longrightarrow>
      fst (getCachedChapters t1 (cacheChapters t0 c S)) = None \<and>
      chapterCache (snd (getCachedChapters t1 (cacheChapters t0 c S))) ''chapters'' = None)"
  by (simp add: getCachedChapters_def cacheChapters_def CACHE_DURATION_def)

theorem cache_window_witness:
  "(600000 - 0 \<le> CACHE_DURATION \<and>
      getCachedChapters 600000 (cacheChapters 0 ''<p>x</p>'' world0)
        = (Some ''<p>x</p>'', cacheChapters 0 ''<p>x</p>'' world0)) \<and>
   (600001 - 0 > CACHE_DURATION \<and>
      fst (getCachedChapters 600001 (cacheChapters 0 ''<p>x</p>'' world0)) = None \<and>
      chapterCache (snd (getCachedChapters 600001 (cacheChapters 0 ''<p>x</p>'' world0)))
        ''chapters'' = None)"
proof -
  have fresh: "600000 - 0 \<le> CACHE_DURATION \<and>
      getCachedChapters 600000 (cacheChapters 0 ''<p>x</p>'' world0)
        = (Some ''<p>x</p>'', cacheChapters 0 ''<p>x</p>'' world0)"
    using cache_window [of 600000 0 "''<p>x</p>''" world0]
    by (simp add: CACHE_DURATION_def)
  have expired: "600001 - 0 > CACHE_DURATION \<and>
      fst (getCachedChapters 600001 (cacheChapters 0 ''<p>x</p>'' world0)) = None \<and>
      chapterCache (snd (getCachedChapters 600001 (cacheChapters 0 ''<p>x</p>'' world0)))
        ''chapters'' = None"
    using cache_window [of 600001 0 "''<p>x</p>''" world0]
    by (simp add: CACHE_DURATION_def)
  from fresh expired show ?thesis by blast
qed

subsection \<open>Loading the chapters\<close>

lemma fetchChapter_eq:
  "fetchChapter E f W =
     (fileResult E f,
      W\<lparr>loadedChapters := fetchedFiles E [f] \<union> loadedChapters W,
         effects := effects W @ [Fetch (chapterUrl f)]\<rparr>)"
  by (simp add: fetchChapter_def fileResult_def fetchedHtml_def fetchedFiles_def Let_def
           split: fetch_outcome.splits option.splits)

lemma fetchedFiles_Cons:
  "fetchedFiles E fs \<union> (fetchedFiles E [f] \<union> L) = fetchedFiles E (f # fs) \<union> L"
  by (auto simp: fetchedFiles_def)

lemma fetchChapters_eq:
  "fetchChapters E fs W =
     (map (fileResult E) fs,
      W\<lparr>loadedChapters := fetchedFiles E fs \<union> loadedChapters W,
         effects := effects W @ map (\<lambda>f. Fetch (chapterUrl f)) fs\<rparr>)"
proof (induction fs arbitrary: W)
  case Nil
  then show ?case by (simp add: fetchedFiles_def)
next
  case (Cons f fs)
  show ?case
    by (simp add: fetchChapter_eq Cons.IH fetchedFiles_Cons)
qed

lemma getCachedChapters_cases:
  "getCachedChapters now W = (r, W2) \<Longrightarrow>
     W2 = W \<or> (r = None \<and> W2 = W\<lparr>chapterCache := (chapterCache W)(''chapters'' := None)\<rparr>)"
  by (auto simp: getCachedChapters_def split: option.splits if_splits)

lemma getCachedChapters_isLoading:
  "fst (getCachedChapters now (W\<lparr>isLoading := b\<rparr>)) = fst (getCachedChapters now W)"
  by (simp add: getCachedChapters_def split: option.splits)

text \<open>A load that finds nothing usable in the cache.\<close>

lemma loadChapters_miss:
  assumes c: "hasContainer W"
    and miss: "truthy (fst (getCachedChapters (nowLookup E) W)) = None"
  shows "effects (loadChapters E W)
           = effects W @ map (\<lambda>f. Fetch (chapterUrl f)) CHAPTERS_TO_LOAD \<and>
         containerHTML (loadChapters E W) = concat (map (fileResult E) CHAPTERS_TO_LOAD) \<and>
         chapterCache (loadChapters E W) ''chapters''
           = Some \<lparr>content = concat (map (fileResult E) CHAPTERS_TO_LOAD),
                   timestamp = nowStore E\<rparr> \<and>
         loadedChapters (loadChapters E W)
           = fetchedFiles E CHAPTERS_TO_LOAD \<union> loadedChapters W \<and>
         fst (loadChaptersTry E W)
           = fst (glue E (domOf E (concat (map (fileResult E) CHAPTERS_TO_LOAD))))"
proof -
  obtain r W2 where g: "getCachedChapters (nowLookup E) (W\<lparr>isLoading := True\<rparr>) = (r, W2)"
    by (cases "getCachedChapters (nowLookup E) (W\<lparr>isLoading := True\<rparr>)")
  have r: "truthy r = None"
    using miss g getCachedChapters_isLoading [of "nowLookup E" True W] by simp
  from getCachedChapters_cases [OF g]
  show ?thesis
    using c r g
    by (auto simp: loadChapters_def loadChaptersTry_def Let_def fetchChapters_eq
        onChaptersLoaded_def setContainerHTML_def cacheChapters_def buildSearchIndex_def
        fadeOutOverlay_def showError_def
        split: prod.splits option.splits)
qed

lemma loadChaptersTry_frame:
  "hasContainer (snd (loadChaptersTry E W)) = hasContainer W \<and>
   containerHidden (snd (loadChaptersTry E W)) = containerHidden W \<and>
   errorContainer (snd (loadChaptersTry E W)) = errorContainer W \<and>
   errorMessage (snd (loadChaptersTry E W)) = errorMessage W \<and>
   retryListeners (snd (loadChaptersTry E W)) = retryListeners W"
proof -
  obtain r W2 where g: "getCachedChapters (nowLookup E) (W\<lparr>isLoading := True\<rparr>) = (r, W2)"
    by (cases "getCachedChapters (nowLookup E) (W\<lparr>isLoading := True\<rparr>)")
  from getCachedChapters_cases [OF g]
  show ?thesis
    using g
    by (auto simp: loadChaptersTry_def Let_def fetchChapters_eq
        onChaptersLoaded_def setContainerHTML_def cacheChapters_def buildSearchIndex_def
        fadeOutOverlay_def
        split: prod.splits option.splits)
qed

lemma loadChapters_succeeded:
  assumes "hasContainer W" and "fst (loadChaptersTry E W) = None"
  shows "loadChapters E W = (snd (loadChaptersTry E W))\<lparr>isLoading := False\<rparr>"
  using assms by (cases "loadChaptersTry E W") (simp add: loadChapters_def)



lemma world0_page:
  "hasContainer world0" "errorContainer world0 = Some True" "errorMessage world0 = Some []"
  "retryListeners world0 = Some 0" "effects world0 = []" "loadedChapters world0 = {}"
  "containerHidden world0 = False"
  by (simp_all add: world0_def)

lemma world0_miss: "truthy (fst (getCachedChapters now world0)) = None"
  by (simp add: getCachedChapters_def world0_def truthy_def)

lemma fileResult_env1:
  \<open>fileResult env1 ''kinematics.html''
     = ''<div class="chapter error">Failed to load kinematics.html</div>''\<close>
  "fileResult env1 ''dynamics.html'' = ''<p>F = ma</p>''"
  by (simp_all add: fileResult_def fetchedHtml_def env1_def chapterUrl_def
      CHAPTERS_DIRECTORY_def errorPlaceholder_def)

lemma fileResult_env2: "fileResult env2 f = fileResult env1 f"
  by (simp add: fileResult_def fetchedHtml_def env2_def)

text \<open>
  C4. On a cache miss (no entry, an expired entry, or an empty cached string) the
  loader requests exactly the files of CHAPTERS_TO_LOAD, in the order of the list, and
  the content injected into the container, which is also the content cached, is the
  per-file results joined in that order, whatever each fetch gives.
\<close>

theorem load_fetches_configured_list:
  assumes "hasContainer W"
    and "truthy (fst (getCachedChapters (nowLookup E) W)) = None"
  shows "effects (loadChapters E W)
           = effects W @ [Fetch ''chapters/kinematics.html'', Fetch ''chapters/dynamics.html''] \<and>
         containerHTML (loadChapters E W) = concat (map (fileResult E) CHAPTERS_TO_LOAD) \<and>
         containerHTML (loadChapters E W)
           = fst (fetchChapter E ''kinematics.html'' W) @ fst (fetchChapter E ''dynamics.html'' W) \<and>
         chapterCache (loadChapters E W) ''chapters''
           = Some \<lparr>content = containerHTML (loadChapters E W), timestamp = nowStore E\<rparr>"
  using loadChapters_miss [OF assms]
  by (simp add: CHAPTERS_TO_LOAD_def chapterUrl_def CHAPTERS_DIRECTORY_def fetchChapter_eq)

theorem load_fetches_configured_list_witness:
  \<open>hasContainer world0 \<and> truthy (fst (getCachedChapters (nowLookup env1) world0)) = None \<and>
   effects (loadChapters env1 world0)
     = [Fetch ''chapters/kinematics.html'', Fetch ''chapters/dynamics.html''] \<and>
   containerHTML (loadChapters env1 world0)
     = ''<div class="chapter error">Failed to load kinematics.html</div><p>F = ma</p>'' \<and>
   chapterCache (loadChapters env1 world0) ''chapters''
     = Some \<lparr>content = ''<div class="chapter error">Failed to load kinematics.html</div><p>F = ma</p>'',
             timestamp = 1005\<rparr>\<close>
proof -
  have t: "nowStore env1 = 1005" by (simp add: env1_def)
  show ?thesis
    using load_fetches_configured_list [of world0 env1]
    by (simp add: world0_page world0_miss fileResult_env1 CHAPTERS_TO_LOAD_def t)
qed

text \<open>
  C8. A failed fetch stays local to its file. Whatever subset of the fetches fails, the
  load injects, in the order of the list, the HTML of each file fetched successfully and
  the fixed placeholder div naming the file in the place of each failed one; the files
  added to loadedChapters are exactly those fetched successfully; and the try block
  ends with an exception only when the page set-up throws, never because a fetch
  failed: when the set-up does not throw, the error container and the content
  container are left as they were.
\<close>

theorem fetch_failure_is_isolated:
  assumes "hasContainer W"
    and "truthy (fst (getCachedChapters (nowLookup E) W)) = None"
  shows \<open>containerHTML (loadChapters E W)
           = concat (map (\<lambda>file. case fetchedHtml E file of
                                    Some html \<Rightarrow> html
                                  | None \<Rightarrow> ''<div class="chapter error">Failed to load '' @ file @ ''</div>'')
                      CHAPTERS_TO_LOAD) \<and>
         loadedChapters (loadChapters E W)
           = loadedChapters W \<union> {file. file \<in> set CHAPTERS_TO_LOAD \<and> fetchedHtml E file \<noteq> None} \<and>
         fst (loadChaptersTry E W) = fst (glue E (domOf E (containerHTML (loadChapters E W)))) \<and>
         (fst (glue E (domOf E (containerHTML (loadChapters E W)))) = None \<longrightarrow>
            errorContainer (loadChapters E W) = errorContainer W \<and>
            containerHidden (loadChapters E W) = containerHidden W)\<close>
proof -
  note m = loadChapters_miss [OF assms]
  have html: "containerHTML (loadChapters E W) = concat (map (fileResult E) CHAPTERS_TO_LOAD)"
    using m by simp
  have c1: \<open>containerHTML (loadChapters E W)
           = concat (map (\<lambda>file. case fetchedHtml E file of
                                    Some html \<Rightarrow> html
                                  | None \<Rightarrow> ''<div class="chapter error">Failed to load '' @ file @ ''</div>'')
                      CHAPTERS_TO_LOAD)\<close>
    unfolding html
    by (simp add: fileResult_def errorPlaceholder_def CHAPTERS_TO_LOAD_def
        split: option.splits)
  have c2: "loadedChapters (loadChapters E W)
           = loadedChapters W \<union> {file. file \<in> set CHAPTERS_TO_LOAD \<and> fetchedHtml E file \<noteq> None}"
    using m by (auto simp: fetchedFiles_def)
  have c3: "fst (loadChaptersTry E W) = fst (glue E (domOf E (containerHTML (loadChapters E W))))"
    using m by simp
  have c4: "errorContainer (loadChapters E W) = errorContainer W \<and>
            containerHidden (loadChapters E W) = containerHidden W"
    if "fst (glue E (domOf E (containerHTML (loadChapters E W)))) = None"
  proof -
    have "fst (loadChaptersTry E W) = None" using c3 that by simp
    from loadChapters_succeeded [OF assms(1) this] loadChaptersTry_frame [of E W]
    show ?thesis by simp
  qed
  from c1 c2 c3 c4 show ?thesis by blast
qed

theorem fetch_failure_is_isolated_witness:
  \<open>hasContainer world0 \<and> truthy (fst (getCachedChapters (nowLookup env1) world0)) = None \<and>
   fetchedHtml env1 ''kinematics.html'' = None \<and>
   fetchedHtml env1 ''dynamics.html'' = Some ''<p>F = ma</p>'' \<and>
   containerHTML (loadChapters env1 world0)
     = ''<div class="chapter error">Failed to load kinematics.html</div><p>F = ma</p>'' \<and>
   loadedChapters (loadChapters env1 world0) = {''dynamics.html''} \<and>
   fst (glue env1 (domOf env1 (containerHTML (loadChapters env1 world0)))) = None \<and>
   errorContainer (loadChapters env1 world0) = Some True \<and>
   containerHidden (loadChapters env1 world0) = False\<close>
proof -
  have f: "fetchedHtml env1 ''kinematics.html'' = None"
      "fetchedHtml env1 ''dynamics.html'' = Some ''<p>F = ma</p>''"
    by (simp_all add: fetchedHtml_def env1_def chapterUrl_def CHAPTERS_DIRECTORY_def)
  have g: "glue env1 d = (None, d)" for d by (simp add: env1_def)
  have s: "{file. file \<in> set CHAPTERS_TO_LOAD \<and> fetchedHtml env1 file \<noteq> None} = {''dynamics.html''}"
    using f by (auto simp: CHAPTERS_TO_LOAD_def)
  note th = fetch_failure_is_isolated [of world0 env1, OF world0_page(1) world0_miss]
  have h: \<open>containerHTML (loadChapters env1 world0)
     = ''<div class="chapter error">Failed to load kinematics.html</div><p>F = ma</p>''\<close>
    using th [THEN conjunct1] by (simp add: f CHAPTERS_TO_LOAD_def)
  have l: "loadedChapters (loadChapters env1 world0) = {''dynamics.html''}"
    using th [THEN conjunct2, THEN conjunct1] unfolding s by (simp add: world0_page)
  have e: "errorContainer (loadChapters env1 world0) = Some True \<and>
           containerHidden (loadChapters env1 world0) = False"
    using th [THEN conjunct2, THEN conjunct2, THEN conjunct2] by (simp add: g world0_page)
  from h l e f show ?thesis by (simp add: world0_page world0_miss g)
qed



subsection \<open>Releasing resources on collapse\<close>






















subsection \<open>The lazy loader\<close>





















subsection \<open>The search index\<close>















lemma fold_keeps:
  assumes "\<And>x W. g (f x W) = g W"
  shows "g (fold f xs W) = g W"
  by (induction xs arbitrary: W) (simp_all add: assms)

















lemma index_entries_complete:
  assumes "ch \<in> set (querySelectorAll (Class ''chapter'') d)"
    "item \<in> set (querySelectorAll (Class ''formula-item'') ch)"
  shows "indexEntry ch (textOfFirst (Tag ''h2'') ch) item \<in> set (searchIndexOf d)"
  using assms by (auto simp: searchIndexOf_def chapterEntries_def)







subsection \<open>Searching\<close>


lemma truthy_simps:
  "truthy None = None" "truthy (Some s) = (if s = [] then None else Some s)"
  by (simp_all add: truthy_def)

















lemma world3_index:
  "searchIndex world3 =
     Some [\<lparr>element = [0, 0, 1, 0], chapterOf = [0, 0], chapterTitle = ''Kinematics'',
             textOf = ''v0 = 5'', title = []\<rparr>,
           \<lparr>element = [0, 0, 1, 1], chapterOf = [0, 0], chapterTitle = ''Kinematics'',
             textOf = ''height'', title = ''Height''\<rparr>,
           \<lparr>element = [0, 0, 1, 2], chapterOf = [0, 0], chapterTitle = ''Kinematics'',
             textOf = ''s(t)'', title = []\<rparr>,
           \<lparr>element = [0, 1, 1, 0], chapterOf = [0, 1], chapterTitle = ''Dynamics'',
             textOf = ''f = ma'', title = []\<rparr>]"
  by (simp add: world3_def buildSearchIndex_def document_def world0_def
      searchIndexOf_def chapterEntries_def indexEntry_def
      querySelectorAll_def querySelector_def textOfFirst_def toLowerCase_def lowerChar_def
      exSearchDoc_def)

lemma world3_fields:
  "originalContent world3 = Map.empty" "innerHTML world3 = exSearchHTML"
  "hiddenEls world3 = {}" "noResultsMessage world3 = Some True"
  "document world3 = ([0], exSearchDoc)"
  by (simp_all add: world3_def buildSearchIndex_def world0_def document_def)

lemma exSearchHTML_simps:
  "exSearchHTML [0, 0, 1, 0] = ''v<sub>0</sub> = 5''"
  "exSearchHTML [0, 0, 1, 1] = ''<h3>Height</h3>''"
  "exSearchHTML [0, 0, 1, 2] = ''s(t)''"
  "exSearchHTML [0, 1, 1, 0] = ''F = ma''"
  by (simp_all add: exSearchHTML_def)


lemma exSearchDoc_queries:
  "map fst (querySelectorAll (Class ''formula-item'') ([0], exSearchDoc))
     = [[0, 0, 1, 0], [0, 0, 1, 1], [0, 0, 1, 2], [0, 1, 1, 0]]"
  "map fst (querySelectorAll (Class ''chapter'') ([0], exSearchDoc)) = [[0, 0], [0, 1]]"
  by (simp_all add: querySelectorAll_def exSearchDoc_def)

lemma query_v0: "trim (toLowerCase ''V0 '') = ''v0''"
  by (simp add: trim_def toLowerCase_def lowerChar_def isWhiteSpace_def)

lemma includes_v0:
  "str_includes ''v0 = 5'' ''v0''" "\<not> str_includes ''height'' ''v0''"
  "\<not> str_includes ''s(t)'' ''v0''" "\<not> str_includes ''f = ma'' ''v0''"
  by simp_all

lemma markAll_v0: "markAll ''v0'' ''v<sub>0</sub> = 5'' = ''v<sub>0</sub> = 5''"
  by (simp add: markAll.simps ciPrefix_def toLowerCase_def lowerChar_def)

lemma markAll_h:
  \<open>markAll ''h'' ''<h3>Height</h3>''
     = ''<<mark class="highlight">h</mark>3><mark class="highlight">H</mark>eig<mark class="highlight">h</mark>t</<mark class="highlight">h</mark>3>''\<close>
  by (simp add: markAll.simps ciPrefix_def toLowerCase_def lowerChar_def markOpen_def markClose_def)

lemma query_simps:
  "trim (toLowerCase ''v0'') = ''v0''" "trim (toLowerCase ''H'') = ''h''"
  "trim (toLowerCase ''('') = ''(''"
  by (simp_all add: trim_def toLowerCase_def lowerChar_def isWhiteSpace_def)

lemma highlight_simps:
  "highlightMatches engine ''v0'' html = Some (markAll ''v0'' html)"
  "highlightMatches engine ''h'' html = Some (markAll ''h'' html)"
  "highlightMatches exEngine ''('' html = None"
  by (simp_all add: highlightMatches_def regexSyntaxChars_def exEngine_def)

lemma searchEntry_match:
  assumes "str_includes (textOf e) q" "originalContent W (element e) = None"
    "innerHTML W (element e) \<noteq> []"
  shows "searchEntry engine q e W =
     (case highlightMatches engine q (innerHTML W (element e)) of
        None \<Rightarrow> (Some syntaxError,
                   W\<lparr>hiddenEls := hiddenEls W - {element e},
                      originalContent := (originalContent W)(element e \<mapsto> innerHTML W (element e))\<rparr>)
      | Some h \<Rightarrow> (None,
                   W\<lparr>hiddenEls := hiddenEls W - {element e},
                      originalContent := (originalContent W)(element e \<mapsto> innerHTML W (element e)),
                      innerHTML := (innerHTML W)(element e := h)\<rparr>))"
  using assms
  by (simp add: searchEntry_def Let_def toggleHidden_def truthy_simps split: option.splits)

lemma searchEntry_no_match:
  assumes "\<not> str_includes (textOf e) q" "originalContent W (element e) = None"
  shows "searchEntry engine q e W = (None, W\<lparr>hiddenEls := insert (element e) (hiddenEls W)\<rparr>)"
  using assms
  by (simp add: searchEntry_def Let_def toggleHidden_def truthy_simps)

lemma loop_step_no_match:
  assumes "\<not> str_includes (textOf e) q" "originalContent W (element e) = None"
  shows "searchIndexLoop engine q (e # es) W hr mc
           = searchIndexLoop engine q es (W\<lparr>hiddenEls := insert (element e) (hiddenEls W)\<rparr>) hr mc"
  using assms by (simp add: searchEntry_no_match Let_def)

lemma loop_step_match:
  assumes "str_includes (textOf e) q" "originalContent W (element e) = None"
    "innerHTML W (element e) \<noteq> []"
    "highlightMatches engine q (innerHTML W (element e)) \<noteq> None"
  shows "searchIndexLoop engine q (e # es) W hr mc
           = searchIndexLoop engine q es
               (W\<lparr>hiddenEls := hiddenEls W - {element e},
                  originalContent := (originalContent W)(element e \<mapsto> innerHTML W (element e)),
                  innerHTML := (innerHTML W)
                    (element e := the (highlightMatches engine q (innerHTML W (element e))))\<rparr>)
               True (insert (chapterOf e) mc)"
  using assms by (auto simp: searchEntry_match Let_def)

lemma loop_step_throw:
  assumes "str_includes (textOf e) q" "originalContent W (element e) = None"
    "innerHTML W (element e) \<noteq> []"
    "highlightMatches engine q (innerHTML W (element e)) = None"
  shows "searchIndexLoop engine q (e # es) W hr mc
           = (Some syntaxError,
              W\<lparr>hiddenEls := hiddenEls W - {element e},
                 originalContent := (originalContent W)(element e \<mapsto> innerHTML W (element e))\<rparr>,
              True, insert (chapterOf e) mc)"
  using assms by (simp add: searchEntry_match Let_def)

lemma world3_index': "searchIndex world3 = Some [e1, e2, e3, e4]"
  by (simp add: world3_index e1_def e2_def e3_def e4_def)

lemma e_fields:
  "element e1 = [0, 0, 1, 0]" "element e2 = [0, 0, 1, 1]" "element e3 = [0, 0, 1, 2]"
  "element e4 = [0, 1, 1, 0]"
  "chapterOf e1 = [0, 0]" "chapterOf e2 = [0, 0]" "chapterOf e3 = [0, 0]" "chapterOf e4 = [0, 1]"
  "textOf e1 = ''v0 = 5''" "textOf e2 = ''height''" "textOf e3 = ''s(t)''" "textOf e4 = ''f = ma''"
  by (simp_all add: e1_def e2_def e3_def e4_def)

lemma eval_facts:
  "str_includes ''v0 = 5'' ''v0''" "\<not> str_includes ''height'' ''v0''"
  "\<not> str_includes ''s(t)'' ''v0''" "\<not> str_includes ''f = ma'' ''v0''"
  "\<not> str_includes ''v0 = 5'' ''h''" "str_includes ''height'' ''h''"
  "\<not> str_includes ''s(t)'' ''h''" "\<not> str_includes ''f = ma'' ''h''"
  "\<not> str_includes ''v0 = 5'' ''(''" "\<not> str_includes ''height'' ''(''"
  "str_includes ''s(t)'' ''(''" "\<not> str_includes ''f = ma'' ''(''"
  by simp_all

lemma handleSearch_throw:
  assumes "trim (toLowerCase v) \<noteq> []" "searchIndex W = Some idx"
    "searchIndexLoop engine (trim (toLowerCase v)) idx W False {} = (Some x, W1, hr, mc)"
  shows "handleSearch engine v W = (Some x, W1)"
  using assms by (simp add: handleSearch_def)

lemma handleSearch_no_throw:
  assumes "trim (toLowerCase v) \<noteq> []" "searchIndex W = Some idx"
    "searchIndexLoop engine (trim (toLowerCase v)) idx W False {} = (None, W1, hr, mc)"
  shows "handleSearch engine v W =
     (None, (fold (showHideChapter (trim (toLowerCase v)) mc)
               (querySelectorAll (Class ''chapter'') (document W1)) W1)
            \<lparr>noResultsMessage :=
               map_option (\<lambda>h. hr)
                 (noResultsMessage (fold (showHideChapter (trim (toLowerCase v)) mc)
                    (querySelectorAll (Class ''chapter'') (document W1)) W1))\<rparr>)"
  using assms by (simp add: handleSearch_def Let_def)

lemma cleanupPlot_page:
  "innerHTML (cleanupPlot plot W) = innerHTML W"
  "hiddenEls (cleanupPlot plot W) = hiddenEls W"
  "noResultsMessage (cleanupPlot plot W) = noResultsMessage W"
  by (simp_all add: cleanupPlot_def Let_def split: option.splits)

lemma toggleChapter_page:
  "innerHTML (toggleChapter ch f W) = innerHTML W"
  "hiddenEls (toggleChapter ch f W) = hiddenEls W"
  "noResultsMessage (toggleChapter ch f W) = noResultsMessage W"
  by (simp_all add: toggleChapter_def Let_def cleanupChapterResources_def
      fold_keeps [of innerHTML cleanupPlot, OF cleanupPlot_page(1)]
      fold_keeps [of hiddenEls cleanupPlot, OF cleanupPlot_page(2)]
      fold_keeps [of noResultsMessage cleanupPlot, OF cleanupPlot_page(3)]
      split: option.splits)

lemma showHideChapter_page:
  "innerHTML (showHideChapter q mc ch W) = innerHTML W"
  "noResultsMessage (showHideChapter q mc ch W) = noResultsMessage W"
  "hiddenEls (showHideChapter q mc ch W)
     = (if fst ch \<in> mc then hiddenEls W - {fst ch} else insert (fst ch) (hiddenEls W))"
  by (simp_all add: showHideChapter_def Let_def toggleChapter_page toggleHidden_def)

lemma fold_showHideChapter_hidden:
  "(p \<in> hiddenEls (fold (showHideChapter q mc) chs W))
     = (if p \<in> set (map fst chs) then p \<notin> mc else p \<in> hiddenEls W)"
  by (induction chs arbitrary: W) (auto simp: showHideChapter_page)

lemma loop_no_matches:
  "list_all (\<lambda>e. \<not> str_includes (textOf e) q \<and> originalContent W (element e) = None) es \<Longrightarrow>
     searchIndexLoop engine q es W hr mc
       = (None, W\<lparr>hiddenEls := set (map element es) \<union> hiddenEls W\<rparr>, hr, mc)"
proof (induction es arbitrary: W)
  case Nil
  then show ?case by simp
next
  case (Cons e es)
  from Cons.prems have a: "\<not> str_includes (textOf e) q" "originalContent W (element e) = None"
    by simp_all
  from Cons.prems have r: "list_all (\<lambda>x. \<not> str_includes (textOf x) q \<and>
      originalContent (W\<lparr>hiddenEls := insert (element e) (hiddenEls W)\<rparr>) (element x) = None) es"
    by (simp add: list_all_iff)
  show ?case
    unfolding loop_step_no_match [OF a] Cons.IH [OF r]
    by simp
qed

lemma fold_showHideChapter_page:
  "innerHTML (fold (showHideChapter q mc) chs W) = innerHTML W"
  "noResultsMessage (fold (showHideChapter q mc) chs W) = noResultsMessage W"
  by (rule fold_keeps, rule showHideChapter_page)+

lemma world3_chapters:
  "map fst (querySelectorAll (Class ''chapter'') (document world3)) = [[0, 0], [0, 1]]"
  by (simp add: world3_fields exSearchDoc_queries)

lemma search_v0:
  "fst (handleSearch exEngine ''v0'' world3) = None \<and>
   [0, 0, 1, 0] \<notin> hiddenEls (snd (handleSearch exEngine ''v0'' world3)) \<and>
   innerHTML (snd (handleSearch exEngine ''v0'' world3)) [0, 0, 1, 0] = ''v<sub>0</sub> = 5''"
proof -
  define W1 where "W1 = world3\<lparr>hiddenEls := hiddenEls world3 - {element e1},
      originalContent := (originalContent world3)(element e1 \<mapsto> innerHTML world3 (element e1)),
      innerHTML := (innerHTML world3)
        (element e1 := the (highlightMatches exEngine ''v0'' (innerHTML world3 (element e1))))\<rparr>"
  have s1: "searchIndexLoop exEngine ''v0'' [e1, e2, e3, e4] world3 False {}
      = searchIndexLoop exEngine ''v0'' [e2, e3, e4] W1 True (insert (chapterOf e1) {})"
    unfolding W1_def
    by (rule loop_step_match)
       (simp_all add: e_fields world3_fields exSearchHTML_def highlight_simps eval_facts
          del: str_includes.simps)
  have t: "list_all (\<lambda>e. \<not> str_includes (textOf e) ''v0'' \<and> originalContent W1 (element e) = None)
      [e2, e3, e4]"
    by (simp add: e_fields eval_facts W1_def world3_fields del: str_includes.simps)
  note l = s1 [unfolded loop_no_matches [OF t]]
  note h = handleSearch_no_throw [of "''v0''" world3, unfolded query_simps, OF _ world3_index' l]
  have d: "document (W1\<lparr>hiddenEls := X\<rparr>) = document world3" for X
    by (simp add: W1_def document_def)
  have a: "fst (handleSearch exEngine ''v0'' world3) = None"
    using h by simp
  have b: "[0, 0, 1, 0] \<notin> hiddenEls (snd (handleSearch exEngine ''v0'' world3))"
    using h
    by (simp add: fold_showHideChapter_hidden d world3_chapters)
       (simp add: W1_def e_fields world3_fields)
  have c: "innerHTML (snd (handleSearch exEngine ''v0'' world3)) [0, 0, 1, 0] = ''v<sub>0</sub> = 5''"
    using h
    by (simp add: fold_showHideChapter_page)
       (simp add: W1_def e_fields world3_fields highlight_simps markAll_v0 exSearchHTML_def)
  from a b c show ?thesis by blast
qed

lemma search_h:
  \<open>innerHTML (snd (handleSearch exEngine ''H'' world3)) [0, 0, 1, 1]
     = ''<<mark class="highlight">h</mark>3><mark class="highlight">H</mark>eig<mark class="highlight">h</mark>t</<mark class="highlight">h</mark>3>''\<close>
proof -
  define W1 where "W1 = world3\<lparr>hiddenEls := insert (element e1) (hiddenEls world3)\<rparr>"
  define W2 where "W2 = W1\<lparr>hiddenEls := hiddenEls W1 - {element e2},
      originalContent := (originalContent W1)(element e2 \<mapsto> innerHTML W1 (element e2)),
      innerHTML := (innerHTML W1)
        (element e2 := the (highlightMatches exEngine ''h'' (innerHTML W1 (element e2))))\<rparr>"
  have s1: "searchIndexLoop exEngine ''h'' [e1, e2, e3, e4] world3 False {}
      = searchIndexLoop exEngine ''h'' [e2, e3, e4] W1 False {}"
    unfolding W1_def
    by (rule loop_step_no_match)
       (simp_all add: e_fields world3_fields eval_facts del: str_includes.simps)
  have s2: "searchIndexLoop exEngine ''h'' [e2, e3, e4] W1 False {}
      = searchIndexLoop exEngine ''h'' [e3, e4] W2 True (insert (chapterOf e2) {})"
    unfolding W2_def
    by (rule loop_step_match)
       (simp_all add: e_fields W1_def world3_fields exSearchHTML_def highlight_simps eval_facts
          del: str_includes.simps)
  have t: "list_all (\<lambda>e. \<not> str_includes (textOf e) ''h'' \<and> originalContent W2 (element e) = None)
      [e3, e4]"
    by (simp add: e_fields eval_facts W2_def W1_def world3_fields del: str_includes.simps)
  note l = s1 [unfolded s2 loop_no_matches [OF t]]
  note h = handleSearch_no_throw [of "''H''" world3, unfolded query_simps, OF _ world3_index' l]
  show ?thesis
    using h
    by (simp add: fold_showHideChapter_page)
       (simp add: W2_def W1_def e_fields world3_fields highlight_simps markAll_h exSearchHTML_def)
qed

lemma search_paren:
  "fst (handleSearch exEngine ''('' world3) = Some syntaxError \<and>
   [0, 1, 1, 0] \<notin> hiddenEls (snd (handleSearch exEngine ''('' world3)) \<and>
   [0, 1] \<notin> hiddenEls (snd (handleSearch exEngine ''('' world3)) \<and>
   noResultsMessage (snd (handleSearch exEngine ''('' world3)) = noResultsMessage world3"
proof -
  define W1 where "W1 = world3\<lparr>hiddenEls := insert (element e1) (hiddenEls world3)\<rparr>"
  define W2 where "W2 = W1\<lparr>hiddenEls := insert (element e2) (hiddenEls W1)\<rparr>"
  define W3 where "W3 = W2\<lparr>hiddenEls := hiddenEls W2 - {element e3},
      originalContent := (originalContent W2)(element e3 \<mapsto> innerHTML W2 (element e3))\<rparr>"
  have s1: "searchIndexLoop exEngine ''('' [e1, e2, e3, e4] world3 False {}
      = searchIndexLoop exEngine ''('' [e2, e3, e4] W1 False {}"
    unfolding W1_def
    by (rule loop_step_no_match)
       (simp_all add: e_fields world3_fields eval_facts del: str_includes.simps)
  have s2: "searchIndexLoop exEngine ''('' [e2, e3, e4] W1 False {}
      = searchIndexLoop exEngine ''('' [e3, e4] W2 False {}"
    unfolding W2_def
    by (rule loop_step_no_match)
       (simp_all add: e_fields W1_def world3_fields eval_facts del: str_includes.simps)
  have s3: "searchIndexLoop exEngine ''('' [e3, e4] W2 False {}
      = (Some syntaxError, W3, True, insert (chapterOf e3) {})"
    unfolding W3_def
    by (rule loop_step_throw)
       (simp_all add: e_fields W2_def W1_def world3_fields exSearchHTML_def highlight_simps
          eval_facts del: str_includes.simps)
  note l = s1 [unfolded s2 s3]
  note h = handleSearch_throw [of "''(''" world3, unfolded query_simps, OF _ world3_index' l]
  show ?thesis
    using h by (simp add: W3_def W2_def W1_def e_fields world3_fields)
qed

text \<open>
  C6, evaluated on the page \<open>world3\<close>. The query \<open>v0\<close> matches the item whose text is
  \<open>v0 = 5\<close>: the item stays visible, but its HTML \<open>v<sub>0</sub> = 5\<close> has no
  occurrence of the query and nothing is wrapped. The query \<open>H\<close> wraps the tag names
  of \<open><h3>Height</h3>\<close> along with the letters of the text. The query \<open>(\<close> matches
  the item \<open>s(t)\<close>, the RegExp constructor throws and the search ends there: the item
  \<open>F = ma\<close>, which does not contain the query, is not hidden, its chapter, which has no
  match, stays visible, and the no-results message is not touched.
\<close>

theorem search_highlight_breaks:
  \<open>str_includes ''v0 = 5'' ''v0'' \<and>
   fst (handleSearch exEngine ''v0'' world3) = None \<and>
   [0, 0, 1, 0] \<notin> hiddenEls (snd (handleSearch exEngine ''v0'' world3)) \<and>
   innerHTML (snd (handleSearch exEngine ''v0'' world3)) [0, 0, 1, 0] = ''v<sub>0</sub> = 5'' \<and>
   innerHTML (snd (handleSearch exEngine ''H'' world3)) [0, 0, 1, 1]
     = ''<<mark class="highlight">h</mark>3><mark class="highlight">H</mark>eig<mark class="highlight">h</mark>t</<mark class="highlight">h</mark>3>'' \<and>
   str_includes ''s(t)'' ''('' \<and> \<not> str_includes ''f = ma'' ''('' \<and>
   fst (handleSearch exEngine ''('' world3) = Some syntaxError \<and>
   [0, 1, 1, 0] \<notin> hiddenEls (snd (handleSearch exEngine ''('' world3)) \<and>
   [0, 1] \<notin> hiddenEls (snd (handleSearch exEngine ''('' world3)) \<and>
   noResultsMessage (snd (handleSearch exEngine ''('' world3)) = noResultsMessage world3\<close>
  using search_v0 search_h search_paren eval_facts(1,11,12) by blast














end
